theory Spec2Isabelle
  imports Complex_Main "HOL-Library.Log_Nat"
begin

chapter \<open>hystrix-py: command properties and command metrics\<close>

text \<open>
  A shallow embedding of \<^verbatim>\<open>hystrix/command_properties.py\<close> and
  \<^verbatim>\<open>hystrix/command_metrics.py\<close>. Objects are records, attribute updates are explicit
  state passing, exceptions are values of \<open>py_error\<close>, and the collaborators whose code
  lives in other modules (\<^verbatim>\<open>RollingNumber\<close>, the event notifier, the clock) are
  parameters.
\<close>

section \<open>Python values\<close>

subsection \<open>Exceptions\<close>

text \<open>
  \<open>AttributeError\<close> is what a method call on \<^verbatim>\<open>None\<close> raises; \<open>OverflowError\<close> and
  \<open>ZeroDivisionError\<close> come from arithmetic. \<open>HookError\<close> wraps whatever the event
  notifier raises and \<open>RollingNumberError\<close> whatever the \<^verbatim>\<open>RollingNumber\<close> constructor
  raises. \<open>ConfigError\<close> is the exception for an invalid configuration; no statement of
  the two modules raises it.
\<close>

datatype py_error =
    AttributeError
  | ZeroDivisionError
  | OverflowError
  | ConfigError
  | HookError string
  | RollingNumberError string

text \<open>
  The package declares Python 2.6 to 3.4 and imports only \<^verbatim>\<open>absolute_import\<close> from
  \<^verbatim>\<open>__future__\<close>, so \<^verbatim>\<open>/\<close> on two integers is floor division under Python 2 and true
  (floating point) division under Python 3.
\<close>

datatype python = Python2 | Python3

subsection \<open>Floating point numbers\<close>

text \<open>
  A finite Python \<^verbatim>\<open>float\<close> is an IEEE 754 binary64 number, here the rational it
  denotes. \<open>binary64\<close> rounds a rational to the nearest such number, ties to the even
  significand, with 53 significant bits, gradual underflow below \<open>2 powi (- 1022)\<close> and
  no upper bound on the exponent; the operations below turn a result of magnitude
  \<open>2 ^ 1024\<close> or more into an overflow.
\<close>

definition round_half_even :: "rat \<Rightarrow> int" where
  "round_half_even x =
     (let f = \<lfloor>x\<rfloor>; r = x - of_int f
      in if r < 1 / 2 then f
         else if 1 / 2 < r then f + 1
         else if even f then f else f + 1)"

text \<open>The binary exponent \<open>\<lfloor>log\<^sub>2 x\<rfloor>\<close> of a positive rational.\<close>

definition exponent2 :: "rat \<Rightarrow> int" where
  "exponent2 x = (if 1 \<le> x then bitlen \<lfloor>x\<rfloor> - 1 else - bitlen (\<lceil>1 / x\<rceil> - 1))"

definition binary64 :: "rat \<Rightarrow> rat" where
  "binary64 x =
     (if x = 0 then 0
      else let a = \<bar>x\<bar>;
               e = max (exponent2 a) (- 1022);
               ulp = 2 powi (e - 52)
           in sgn x * (of_int (round_half_even (a / ulp)) * ulp))"

datatype py_float = Finite rat | Infinity

text \<open>
  \<^verbatim>\<open>a / b\<close> on two integers under Python 3: the correctly rounded quotient;
  \<^verbatim>\<open>ZeroDivisionError\<close> for a zero divisor, \<^verbatim>\<open>OverflowError\<close> when the quotient is too
  large for a float.
\<close>

definition py_truediv :: "int \<Rightarrow> int \<Rightarrow> py_error + rat" where
  "py_truediv a b =
     (if b = 0 then Inl ZeroDivisionError
      else let q = binary64 (of_int a / of_int b)
           in if 2 ^ 1024 \<le> \<bar>q\<bar> then Inl OverflowError else Inr q)"

text \<open>\<^verbatim>\<open>x * y\<close> on two finite floats: the rounded product, an infinity on overflow.\<close>

definition py_float_mul :: "rat \<Rightarrow> rat \<Rightarrow> py_float" where
  "py_float_mul x y =
     (let p = binary64 (x * y)
      in if 2 ^ 1024 \<le> \<bar>p\<bar> then Infinity else Finite p)"

text \<open>\<^verbatim>\<open>int(x)\<close> on a float truncates toward zero and refuses an infinity.\<close>

definition py_int :: "py_float \<Rightarrow> py_error + int" where
  "py_int x =
     (case x of
        Infinity \<Rightarrow> Inl OverflowError
      | Finite d \<Rightarrow> Inr (if 0 \<le> d then \<lfloor>d\<rfloor> else \<lceil>d\<rceil>))"

text \<open>
  \<^verbatim>\<open>a / b\<close> on two integers under Python 2: floor division (HOL's \<open>div\<close> on \<open>int\<close>
  rounds toward minus infinity as Python's does).
\<close>

definition py2_div :: "int \<Rightarrow> int \<Rightarrow> py_error + int" where
  "py2_div a b = (if b = 0 then Inl ZeroDivisionError else Inr (a div b))"

section \<open>Command properties\<close>

subsection \<open>Default values\<close>

definition default_metrics_rolling_statistical_window :: int where
  "default_metrics_rolling_statistical_window = 10000"

definition default_metrics_rolling_statistical_window_buckets :: int where
  "default_metrics_rolling_statistical_window_buckets = 10"

definition default_circuit_breaker_request_volume_threshold :: int where
  "default_circuit_breaker_request_volume_threshold = 20"

definition default_circuit_breaker_sleep_window_in_milliseconds :: int where
  "default_circuit_breaker_sleep_window_in_milliseconds = 5000"

definition default_circuit_breaker_error_threshold_percentage :: int where
  "default_circuit_breaker_error_threshold_percentage = 50"

definition default_circuit_breaker_force_open :: bool where
  "default_circuit_breaker_force_open = False"

definition default_circuit_breaker_force_closed :: bool where
  "default_circuit_breaker_force_closed = False"

definition default_execution_timeout_in_milliseconds :: int where
  "default_execution_timeout_in_milliseconds = 1000"

definition default_execution_isolation_strategy :: int where
  "default_execution_isolation_strategy = 0"

definition default_execution_isolation_thread_interrupt_on_timeout :: bool where
  "default_execution_isolation_thread_interrupt_on_timeout = True"

definition default_metrics_rolling_percentile_enabled :: bool where
  "default_metrics_rolling_percentile_enabled = True"

definition default_request_cache_enabled :: bool where
  "default_request_cache_enabled = True"

definition default_fallback_isolation_semaphore_max_concurrent_requests :: int where
  "default_fallback_isolation_semaphore_max_concurrent_requests = 10"

definition default_fallback_enabled :: bool where
  "default_fallback_enabled = True"

definition default_execution_isolation_semaphore_max_concurrent_requests :: int where
  "default_execution_isolation_semaphore_max_concurrent_requests = 10"

definition default_request_log_enabled :: bool where
  "default_request_log_enabled = True"

definition default_circuit_breaker_enabled :: bool where
  "default_circuit_breaker_enabled = True"

definition default_metrics_rolling_percentile_window :: int where
  "default_metrics_rolling_percentile_window = 60000"

definition default_metrics_rolling_percentile_window_buckets :: int where
  "default_metrics_rolling_percentile_window_buckets = 6"

definition default_metrics_rolling_percentile_bucket_size :: int where
  "default_metrics_rolling_percentile_bucket_size = 100"

definition default_metrics_health_snapshot_interval_in_milliseconds :: int where
  "default_metrics_health_snapshot_interval_in_milliseconds = 500"

subsection \<open>The Setter\<close>

text \<open>
  The fluent \<^verbatim>\<open>Setter\<close>: one attribute per property, \<^verbatim>\<open>None\<close> until a
  \<^verbatim>\<open>with_...\<close> call stores an override. The record field stands for the private attribute
  together with its getter of the same name.
\<close>

record Setter =
  circuit_breaker_enabled :: "bool option"
  circuit_breaker_error_threshold_percentage :: "int option"
  circuit_breaker_force_closed :: "bool option"
  circuit_breaker_force_open :: "bool option"
  circuit_breaker_request_volume_threshold :: "int option"
  circuit_breaker_sleep_window_in_milliseconds :: "int option"
  execution_isolation_semaphore_max_concurrent_requests :: "int option"
  execution_isolation_strategy :: "int option"
  execution_isolation_thread_interrupt_on_timeout :: "bool option"
  execution_timeout_in_milliseconds :: "int option"
  fallback_isolation_semaphore_max_concurrent_requests :: "int option"
  fallback_enabled :: "bool option"
  metrics_health_snapshot_interval_in_milliseconds :: "int option"
  metrics_rolling_percentile_bucket_size :: "int option"
  metrics_rolling_percentile_enabled :: "bool option"
  metrics_rolling_percentile_window_in_milliseconds :: "int option"
  metrics_rolling_percentile_window_buckets :: "int option"
  metrics_rolling_statistical_window_in_milliseconds :: "int option"
  metrics_rolling_statistical_window_buckets :: "int option"
  request_cache_enabled :: "bool option"
  request_log_enabled :: "bool option"

definition Setter_init :: Setter where
  "Setter_init = \<lparr>
     Setter.circuit_breaker_enabled = None,
     Setter.circuit_breaker_error_threshold_percentage = None,
     Setter.circuit_breaker_force_closed = None,
     Setter.circuit_breaker_force_open = None,
     Setter.circuit_breaker_request_volume_threshold = None,
     Setter.circuit_breaker_sleep_window_in_milliseconds = None,
     Setter.execution_isolation_semaphore_max_concurrent_requests = None,
     Setter.execution_isolation_strategy = None,
     Setter.execution_isolation_thread_interrupt_on_timeout = None,
     Setter.execution_timeout_in_milliseconds = None,
     Setter.fallback_isolation_semaphore_max_concurrent_requests = None,
     Setter.fallback_enabled = None,
     Setter.metrics_health_snapshot_interval_in_milliseconds = None,
     Setter.metrics_rolling_percentile_bucket_size = None,
     Setter.metrics_rolling_percentile_enabled = None,
     Setter.metrics_rolling_percentile_window_in_milliseconds = None,
     Setter.metrics_rolling_percentile_window_buckets = None,
     Setter.metrics_rolling_statistical_window_in_milliseconds = None,
     Setter.metrics_rolling_statistical_window_buckets = None,
     Setter.request_cache_enabled = None,
     Setter.request_log_enabled = None\<rparr>"

definition with_circuit_breaker_enabled :: "bool option \<Rightarrow> Setter \<Rightarrow> Setter" where
  "with_circuit_breaker_enabled v s = s\<lparr>Setter.circuit_breaker_enabled := v\<rparr>"

definition with_circuit_breaker_error_threshold_percentage :: "int option \<Rightarrow> Setter \<Rightarrow> Setter" where
  "with_circuit_breaker_error_threshold_percentage v s = s\<lparr>Setter.circuit_breaker_error_threshold_percentage := v\<rparr>"

definition with_circuit_breaker_force_closed :: "bool option \<Rightarrow> Setter \<Rightarrow> Setter" where
  "with_circuit_breaker_force_closed v s = s\<lparr>Setter.circuit_breaker_force_closed := v\<rparr>"

definition with_circuit_breaker_force_open :: "bool option \<Rightarrow> Setter \<Rightarrow> Setter" where
  "with_circuit_breaker_force_open v s = s\<lparr>Setter.circuit_breaker_force_open := v\<rparr>"

definition with_circuit_breaker_request_volume_threshold :: "int option \<Rightarrow> Setter \<Rightarrow> Setter" where
  "with_circuit_breaker_request_volume_threshold v s = s\<lparr>Setter.circuit_breaker_request_volume_threshold := v\<rparr>"

definition with_circuit_breaker_sleep_window_in_milliseconds :: "int option \<Rightarrow> Setter \<Rightarrow> Setter" where
  "with_circuit_breaker_sleep_window_in_milliseconds v s = s\<lparr>Setter.circuit_breaker_sleep_window_in_milliseconds := v\<rparr>"

definition with_execution_isolation_semaphore_max_concurrent_requests :: "int option \<Rightarrow> Setter \<Rightarrow> Setter" where
  "with_execution_isolation_semaphore_max_concurrent_requests v s = s\<lparr>Setter.execution_isolation_semaphore_max_concurrent_requests := v\<rparr>"

definition with_execution_isolation_strategy :: "int option \<Rightarrow> Setter \<Rightarrow> Setter" where
  "with_execution_isolation_strategy v s = s\<lparr>Setter.execution_isolation_strategy := v\<rparr>"

definition with_execution_isolation_thread_interrupt_on_timeout :: "bool option \<Rightarrow> Setter \<Rightarrow> Setter" where
  "with_execution_isolation_thread_interrupt_on_timeout v s = s\<lparr>Setter.execution_isolation_thread_interrupt_on_timeout := v\<rparr>"

definition with_execution_timeout_in_milliseconds :: "int option \<Rightarrow> Setter \<Rightarrow> Setter" where
  "with_execution_timeout_in_milliseconds v s = s\<lparr>Setter.execution_timeout_in_milliseconds := v\<rparr>"

definition with_fallback_isolation_semaphore_max_concurrent_requests :: "int option \<Rightarrow> Setter \<Rightarrow> Setter" where
  "with_fallback_isolation_semaphore_max_concurrent_requests v s = s\<lparr>Setter.fallback_isolation_semaphore_max_concurrent_requests := v\<rparr>"

definition with_fallback_enabled :: "bool option \<Rightarrow> Setter \<Rightarrow> Setter" where
  "with_fallback_enabled v s = s\<lparr>Setter.fallback_enabled := v\<rparr>"

definition with_metrics_health_snapshot_interval_in_milliseconds :: "int option \<Rightarrow> Setter \<Rightarrow> Setter" where
  "with_metrics_health_snapshot_interval_in_milliseconds v s = s\<lparr>Setter.metrics_health_snapshot_interval_in_milliseconds := v\<rparr>"

definition with_metrics_rolling_percentile_bucket_size :: "int option \<Rightarrow> Setter \<Rightarrow> Setter" where
  "with_metrics_rolling_percentile_bucket_size v s = s\<lparr>Setter.metrics_rolling_percentile_bucket_size := v\<rparr>"

definition with_metrics_rolling_percentile_enabled :: "bool option \<Rightarrow> Setter \<Rightarrow> Setter" where
  "with_metrics_rolling_percentile_enabled v s = s\<lparr>Setter.metrics_rolling_percentile_enabled := v\<rparr>"

definition with_metrics_rolling_percentile_window_in_milliseconds :: "int option \<Rightarrow> Setter \<Rightarrow> Setter" where
  "with_metrics_rolling_percentile_window_in_milliseconds v s = s\<lparr>Setter.metrics_rolling_percentile_window_in_milliseconds := v\<rparr>"

definition with_metrics_rolling_percentile_window_buckets :: "int option \<Rightarrow> Setter \<Rightarrow> Setter" where
  "with_metrics_rolling_percentile_window_buckets v s = s\<lparr>Setter.metrics_rolling_percentile_window_buckets := v\<rparr>"

definition with_metrics_rolling_statistical_window_in_milliseconds :: "int option \<Rightarrow> Setter \<Rightarrow> Setter" where
  "with_metrics_rolling_statistical_window_in_milliseconds v s = s\<lparr>Setter.metrics_rolling_statistical_window_in_milliseconds := v\<rparr>"

definition with_metrics_rolling_statistical_window_buckets :: "int option \<Rightarrow> Setter \<Rightarrow> Setter" where
  "with_metrics_rolling_statistical_window_buckets v s = s\<lparr>Setter.metrics_rolling_statistical_window_buckets := v\<rparr>"

definition with_request_cache_enabled :: "bool option \<Rightarrow> Setter \<Rightarrow> Setter" where
  "with_request_cache_enabled v s = s\<lparr>Setter.request_cache_enabled := v\<rparr>"

definition with_request_log_enabled :: "bool option \<Rightarrow> Setter \<Rightarrow> Setter" where
  "with_request_log_enabled v s = s\<lparr>Setter.request_log_enabled := v\<rparr>"

subsection \<open>Resolved properties\<close>

record CommandProperties =
  command_key :: string
  property_prefix :: "string option"
  circuit_breaker_enabled :: bool
  circuit_breaker_request_volume_threshold :: int
  circuit_breaker_sleep_window_in_milliseconds :: int
  circuit_breaker_error_threshold_percentage :: int
  circuit_breaker_force_open :: bool
  circuit_breaker_force_closed :: bool
  execution_isolation_strategy :: int
  execution_timeout_in_milliseconds :: int
  execution_isolation_semaphore_max_concurrent_requests :: int
  fallback_isolation_semaphore_max_concurrent_requests :: int
  fallback_enabled :: bool
  execution_isolation_thread_interrupt_on_timeout :: bool
  metrics_rolling_statistical_window_in_milliseconds :: int
  metrics_rolling_statistical_window_buckets :: int
  metrics_rolling_percentile_enabled :: bool
  metrics_rolling_percentile_window_in_milliseconds :: int
  metrics_rolling_percentile_window_buckets :: int
  metrics_rolling_percentile_bucket_size :: int
  metrics_health_snapshot_interval_in_milliseconds :: int
  request_log_enabled :: bool
  request_cache_enabled :: bool

definition property' ::
  "string option \<Rightarrow> string \<Rightarrow> string \<Rightarrow> 'a \<Rightarrow> 'a option \<Rightarrow> 'a" where
  "property' prefix key instance_property default_value setter_override_value =
     (case setter_override_value of
        Some v \<Rightarrow> v
      | None \<Rightarrow> default_value)"

definition CommandProperties_init ::
  "string \<Rightarrow> Setter \<Rightarrow> string option \<Rightarrow> py_error + CommandProperties" where
  "CommandProperties_init key setter prefix = Inr \<lparr>
     command_key = key,
     property_prefix = prefix,
     circuit_breaker_enabled =
       property' prefix key ''circuit_breaker.enabled''
         default_circuit_breaker_enabled
         (Setter.circuit_breaker_enabled setter),
     circuit_breaker_request_volume_threshold =
       property' prefix key ''circuit_breaker.request_volume_threshold''
         default_circuit_breaker_request_volume_threshold
         (Setter.circuit_breaker_request_volume_threshold setter),
     circuit_breaker_sleep_window_in_milliseconds =
       property' prefix key ''circuit_breaker.sleep_window_in_milliseconds''
         default_circuit_breaker_sleep_window_in_milliseconds
         (Setter.circuit_breaker_sleep_window_in_milliseconds setter),
     circuit_breaker_error_threshold_percentage =
       property' prefix key ''circuit_breaker.error_threshold_percentage''
         default_circuit_breaker_error_threshold_percentage
         (Setter.circuit_breaker_error_threshold_percentage setter),
     circuit_breaker_force_open =
       property' prefix key ''circuit_breaker.force_open''
         default_circuit_breaker_force_open
         (Setter.circuit_breaker_force_open setter),
     circuit_breaker_force_closed =
       property' prefix key ''circuit_breaker.force_closed''
         default_circuit_breaker_force_closed
         (Setter.circuit_breaker_force_closed setter),
     execution_isolation_strategy =
       property' prefix key ''execution.isolation.strategy''
         default_execution_isolation_strategy
         (Setter.execution_isolation_strategy setter),
     execution_timeout_in_milliseconds =
       property' prefix key ''execution.isolation.thread.timeout_in_milliseconds''
         default_execution_timeout_in_milliseconds
         (Setter.execution_timeout_in_milliseconds setter),
     execution_isolation_semaphore_max_concurrent_requests =
       property' prefix key ''execution.isolation.semaphore.max_concurrent_requests''
         default_execution_isolation_semaphore_max_concurrent_requests
         (Setter.execution_isolation_semaphore_max_concurrent_requests setter),
     fallback_isolation_semaphore_max_concurrent_requests =
       property' prefix key ''fallback.isolation.semaphore.max_concurrent_requests''
         default_fallback_isolation_semaphore_max_concurrent_requests
         (Setter.fallback_isolation_semaphore_max_concurrent_requests setter),
     fallback_enabled =
       property' prefix key ''fallback.enabled''
         default_fallback_enabled
         (Setter.fallback_enabled setter),
     execution_isolation_thread_interrupt_on_timeout =
       property' prefix key ''execution.isolation.thread.interrupt_on_timeout''
         default_execution_isolation_thread_interrupt_on_timeout
         (Setter.execution_isolation_thread_interrupt_on_timeout setter),
     metrics_rolling_statistical_window_in_milliseconds =
       property' prefix key ''metrics.rolling_stats.time_in_milliseconds''
         default_metrics_rolling_statistical_window
         (Setter.metrics_rolling_statistical_window_in_milliseconds setter),
     metrics_rolling_statistical_window_buckets =
       property' prefix key ''metrics.rolling_stats.num_buckets''
         default_metrics_rolling_statistical_window_buckets
         (Setter.metrics_rolling_statistical_window_buckets setter),
     metrics_rolling_percentile_enabled =
       property' prefix key ''metrics.rolling_percentile.enabled''
         default_metrics_rolling_percentile_enabled
         (Setter.metrics_rolling_percentile_enabled setter),
     metrics_rolling_percentile_window_in_milliseconds =
       property' prefix key ''metrics.rolling_percentile.time_in_milliseconds''
         default_metrics_rolling_percentile_window
         (Setter.metrics_rolling_percentile_window_in_milliseconds setter),
     metrics_rolling_percentile_window_buckets =
       property' prefix key ''metrics.rolling_percentile.num_buckets''
         default_metrics_rolling_percentile_window_buckets
         (Setter.metrics_rolling_percentile_window_buckets setter),
     metrics_rolling_percentile_bucket_size =
       property' prefix key ''metrics.rolling_percentile.bucket_size''
         default_metrics_rolling_percentile_bucket_size
         (Setter.metrics_rolling_percentile_bucket_size setter),
     metrics_health_snapshot_interval_in_milliseconds =
       property' prefix key ''metrics.health_snapshot.interval_in_milliseconds''
         default_metrics_health_snapshot_interval_in_milliseconds
         (Setter.metrics_health_snapshot_interval_in_milliseconds setter),
     request_log_enabled =
       property' prefix key ''request_log.enabled''
         default_request_log_enabled
         (Setter.request_log_enabled setter),
     request_cache_enabled =
       property' prefix key ''request_cache.enabled''
         default_request_cache_enabled
         (Setter.request_cache_enabled setter)\<rparr>"

section \<open>Command metrics\<close>

subsection \<open>Collaborators\<close>

text \<open>
  Modelled from the spec: the members of \<^verbatim>\<open>hystrix.event_type.EventType\<close> and of
  \<^verbatim>\<open>hystrix.rolling_number.RollingNumberEvent\<close>, which \<^verbatim>\<open>command_metrics.py\<close> imports
  from other modules of the package. Both enumerations get the event kinds the
  specification lists; the code uses \<open>SUCCESS\<close>, \<open>FAILURE\<close>, \<open>TIMEOUT\<close>, \<open>BAD_REQUEST\<close> of the first
  and these four, \<open>THREAD_POOL_REJECTED\<close>, \<open>SEMAPHORE_REJECTED\<close> and
  \<open>SHORT_CIRCUITED\<close> of the second.
\<close>

datatype EventType =
    SUCCESS | FAILURE | TIMEOUT | SHORT_CIRCUITED | THREAD_POOL_REJECTED
  | SEMAPHORE_REJECTED | BAD_REQUEST | FALLBACK_SUCCESS | FALLBACK_FAILURE
  | FALLBACK_REJECTION | EXCEPTION_THROWN | RESPONSE_FROM_CACHE | COLLAPSED

datatype RollingNumberEvent =
    SUCCESS | FAILURE | TIMEOUT | SHORT_CIRCUITED | THREAD_POOL_REJECTED
  | SEMAPHORE_REJECTED | BAD_REQUEST | FALLBACK_SUCCESS | FALLBACK_FAILURE
  | FALLBACK_REJECTION | EXCEPTION_THROWN | RESPONSE_FROM_CACHE | COLLAPSED

text \<open>
  The code of \<^verbatim>\<open>RollingNumber\<close> and of the event notifier is not part of the two
  modules, so their methods are parameters. \<open>'c\<close> is the state of a rolling number and
  \<open>'n\<close> the state of a notifier.
  \<^item> \<open>RollingNumber ms buckets\<close> is the constructor; it may raise.
  \<^item> \<open>increment ev c\<close> is the counter after \<^verbatim>\<open>counter.increment(ev)\<close>.
  \<^item> \<open>rolling_sum ev c\<close> is what \<^verbatim>\<open>counter.rolling_sum(ev)\<close> returns, with the counter
    after the call (reading rolls the window forward).
  \<^item> \<open>mark_event ev key n\<close> is the notifier after \<^verbatim>\<open>mark_event(ev, key)\<close>, with the
    message of the exception the call raised, if it raised one.
\<close>

record ('c, 'n) collaborators =
  RollingNumber :: "int \<Rightarrow> int \<Rightarrow> py_error + 'c"
  increment :: "RollingNumberEvent \<Rightarrow> 'c \<Rightarrow> 'c"
  rolling_sum :: "RollingNumberEvent \<Rightarrow> 'c \<Rightarrow> int \<times> 'c"
  mark_event :: "EventType \<Rightarrow> string option \<Rightarrow> 'n \<Rightarrow> string option \<times> 'n"

text \<open>
  \<^verbatim>\<open>AtomicLong.compare_and_set(expect, update)\<close> of the \<^verbatim>\<open>atomos\<close> library on a cell
  holding \<open>cell\<close>: whether the cell was updated, and the cell afterwards. The cell holds
  a clock reading in milliseconds, which fits its 64 bits.
\<close>

definition compare_and_set :: "int \<Rightarrow> int \<Rightarrow> int \<Rightarrow> bool \<times> int" where
  "compare_and_set expect update cell =
     (if cell = expect then (True, update) else (False, cell))"

subsection \<open>HealthCounts\<close>

text \<open>
  The three private attributes of a \<^verbatim>\<open>HealthCounts\<close> object (\<^verbatim>\<open>_total_count\<close>,
  \<^verbatim>\<open>_error_count\<close>, \<^verbatim>\<open>_error_percentage\<close>), its constructor and its three getters.
\<close>

record HealthCounts =
  f_total_count :: int
  f_error_count :: int
  f_error_percentage :: int

definition HealthCounts_init :: "int \<Rightarrow> int \<Rightarrow> int \<Rightarrow> HealthCounts" where
  "HealthCounts_init total' error' error_percentage' =
     \<lparr>f_total_count = total', f_error_count = error',
      f_error_percentage = error_percentage'\<rparr>"

definition total_requests :: "HealthCounts \<Rightarrow> int" where
  "total_requests h = f_total_count h"

definition error_count :: "HealthCounts \<Rightarrow> int" where
  "error_count h = f_error_count h"

definition error_percentage :: "HealthCounts \<Rightarrow> int" where
  "error_percentage h = f_error_percentage h"

subsection \<open>CommandMetrics\<close>

text \<open>
  The attributes of a \<^verbatim>\<open>CommandMetrics\<close> object. \<open>command_metrics_key\<close> is the class
  attribute the metaclass sets (\<^verbatim>\<open>None\<close> on the base class). \<open>objects\<close> is the part of
  the Python heap that holds the \<^verbatim>\<open>HealthCounts\<close> objects created so far, an object's
  address being its position; \<open>health_counts_snapshot\<close> is a reference into it, or
  \<^verbatim>\<open>None\<close>. \<open>last_health_counts_snapshot\<close> is the value of the \<^verbatim>\<open>AtomicLong\<close>.
\<close>

record ('c, 'n) CommandMetrics =
  command_metrics_key :: "string option"
  counter :: 'c
  properties :: CommandProperties
  group_key :: "string option"
  event_notifier :: "'n option"
  health_counts_snapshot :: "nat option"
  last_health_counts_snapshot :: int
  objects :: "HealthCounts list"

text \<open>
  \<^verbatim>\<open>__init__\<close>. \<open>class_key\<close> is the class attribute; the constructor's own
  \<^verbatim>\<open>command_metrics_key\<close> and \<^verbatim>\<open>pool_key\<close> arguments are not stored. \<open>now\<close> is the
  reading of the clock. With \<^verbatim>\<open>properties=None\<close>, the default, the first statement
  raises.
\<close>

definition CommandMetrics_init ::
  "('c, 'n) collaborators \<Rightarrow> string option \<Rightarrow> string option \<Rightarrow> string option \<Rightarrow>
   string option \<Rightarrow> CommandProperties option \<Rightarrow> 'n option \<Rightarrow> int \<Rightarrow>
   py_error + ('c, 'n) CommandMetrics" where
  "CommandMetrics_init env class_key key_arg group_arg pool_arg props notifier now =
     (case props of
        None \<Rightarrow> Inl AttributeError
      | Some p \<Rightarrow>
          (case RollingNumber env
                  (metrics_rolling_statistical_window_in_milliseconds p)
                  (metrics_rolling_statistical_window_buckets p) of
             Inl e \<Rightarrow> Inl e
           | Inr c \<Rightarrow> Inr \<lparr>
               command_metrics_key = class_key,
               counter = c,
               properties = p,
               group_key = group_arg,
               event_notifier = notifier,
               health_counts_snapshot = None,
               last_health_counts_snapshot = now,
               objects = []\<rparr>))"

text \<open>
  The four \<^verbatim>\<open>mark_...\<close> methods. Each calls the notifier first and increments the
  counter after the notifier has returned; \<^verbatim>\<open>duration\<close> is not read. A call returns
  the exception or \<^verbatim>\<open>None\<close>, and the object as the call leaves it. With
  \<^verbatim>\<open>event_notifier=None\<close>, the constructor's default, the first statement raises.
\<close>

definition mark_success ::
  "('c, 'n) collaborators \<Rightarrow> 'd \<Rightarrow> ('c, 'n) CommandMetrics \<Rightarrow>
   (py_error + unit) \<times> ('c, 'n) CommandMetrics" where
  "mark_success env duration m =
     (case event_notifier m of
        None \<Rightarrow> (Inl AttributeError, m)
      | Some n \<Rightarrow>
          (case mark_event env EventType.SUCCESS (command_metrics_key m) n of
             (Some msg, n') \<Rightarrow> (Inl (HookError msg), m\<lparr>event_notifier := Some n'\<rparr>)
           | (None, n') \<Rightarrow>
               (Inr (), m\<lparr>event_notifier := Some n',
                           counter := increment env RollingNumberEvent.SUCCESS (counter m)\<rparr>)))"

definition mark_failure ::
  "('c, 'n) collaborators \<Rightarrow> 'd \<Rightarrow> ('c, 'n) CommandMetrics \<Rightarrow>
   (py_error + unit) \<times> ('c, 'n) CommandMetrics" where
  "mark_failure env duration m =
     (case event_notifier m of
        None \<Rightarrow> (Inl AttributeError, m)
      | Some n \<Rightarrow>
          (case mark_event env EventType.FAILURE (command_metrics_key m) n of
             (Some msg, n') \<Rightarrow> (Inl (HookError msg), m\<lparr>event_notifier := Some n'\<rparr>)
           | (None, n') \<Rightarrow>
               (Inr (), m\<lparr>event_notifier := Some n',
                           counter := increment env RollingNumberEvent.FAILURE (counter m)\<rparr>)))"

definition mark_timeout ::
  "('c, 'n) collaborators \<Rightarrow> 'd \<Rightarrow> ('c, 'n) CommandMetrics \<Rightarrow>
   (py_error + unit) \<times> ('c, 'n) CommandMetrics" where
  "mark_timeout env duration m =
     (case event_notifier m of
        None \<Rightarrow> (Inl AttributeError, m)
      | Some n \<Rightarrow>
          (case mark_event env EventType.TIMEOUT (command_metrics_key m) n of
             (Some msg, n') \<Rightarrow> (Inl (HookError msg), m\<lparr>event_notifier := Some n'\<rparr>)
           | (None, n') \<Rightarrow>
               (Inr (), m\<lparr>event_notifier := Some n',
                           counter := increment env RollingNumberEvent.TIMEOUT (counter m)\<rparr>)))"

definition mark_bad_request ::
  "('c, 'n) collaborators \<Rightarrow> 'd \<Rightarrow> ('c, 'n) CommandMetrics \<Rightarrow>
   (py_error + unit) \<times> ('c, 'n) CommandMetrics" where
  "mark_bad_request env duration m =
     (case event_notifier m of
        None \<Rightarrow> (Inl AttributeError, m)
      | Some n \<Rightarrow>
          (case mark_event env EventType.BAD_REQUEST (command_metrics_key m) n of
             (Some msg, n') \<Rightarrow> (Inl (HookError msg), m\<lparr>event_notifier := Some n'\<rparr>)
           | (None, n') \<Rightarrow>
               (Inr (), m\<lparr>event_notifier := Some n',
                           counter := increment env RollingNumberEvent.BAD_REQUEST (counter m)\<rparr>)))"

text \<open>
  The expression \<^verbatim>\<open>int(error_count / total_count * 100)\<close>, which Python reads as
  \<^verbatim>\<open>int((error_count / total_count) * 100)\<close>. Under Python 2 the quotient and the
  product are integers and \<^verbatim>\<open>int\<close> changes nothing; under Python 3 the quotient is a
  float, \<^verbatim>\<open>100\<close> is converted to the float \<open>100\<close> and the product is rounded again.
\<close>

definition int_error_percentage :: "python \<Rightarrow> int \<Rightarrow> int \<Rightarrow> py_error + int" where
  "int_error_percentage py error_count' total_count' =
     (case py of
        Python2 \<Rightarrow>
          (case py2_div error_count' total_count' of
             Inl e \<Rightarrow> Inl e
           | Inr q \<Rightarrow> Inr (q * 100))
      | Python3 \<Rightarrow>
          (case py_truediv error_count' total_count' of
             Inl e \<Rightarrow> Inl e
           | Inr q \<Rightarrow> py_int (py_float_mul q 100)))"

text \<open>
  \<^verbatim>\<open>health_counts\<close>, run by one thread from its first statement to its last. \<open>now\<close> is
  what \<^verbatim>\<open>ActualTime().current_time_in_millis()\<close> returns. The call returns the reference
  held in \<^verbatim>\<open>health_counts_snapshot\<close> (or the exception the arithmetic raised) and the
  object as the call leaves it; \<^verbatim>\<open>HealthCounts(...)\<close> allocates at the next free address.
\<close>

definition health_counts ::
  "python \<Rightarrow> ('c, 'n) collaborators \<Rightarrow> int \<Rightarrow> ('c, 'n) CommandMetrics \<Rightarrow>
   (py_error + nat option) \<times> ('c, 'n) CommandMetrics" where
  "health_counts py env now m =
     (let last_time = last_health_counts_snapshot m;
          current_time = now
      in if metrics_health_snapshot_interval_in_milliseconds (properties m)
              \<le> current_time - last_time
            \<or> health_counts_snapshot m = None
         then
           (case compare_and_set last_time current_time (last_health_counts_snapshot m) of
              (True, cell) \<Rightarrow>
                (let (success, c1) = rolling_sum env RollingNumberEvent.SUCCESS (counter m);
                     (failure, c2) = rolling_sum env RollingNumberEvent.FAILURE c1;
                     (timeout, c3) = rolling_sum env RollingNumberEvent.TIMEOUT c2;
                     (thread_pool_rejected, c4) =
                        rolling_sum env RollingNumberEvent.THREAD_POOL_REJECTED c3;
                     (semaphore_rejected, c5) =
                        rolling_sum env RollingNumberEvent.SEMAPHORE_REJECTED c4;
                     (short_circuited, c6) =
                        rolling_sum env RollingNumberEvent.SHORT_CIRCUITED c5;
                     total_count' = failure + success + timeout + thread_pool_rejected
                                    + short_circuited + semaphore_rejected;
                     error_count' = failure + timeout + thread_pool_rejected
                                    + short_circuited + semaphore_rejected;
                     m1 = m\<lparr>last_health_counts_snapshot := cell, counter := c6\<rparr>
                 in case (if 0 < total_count'
                          then int_error_percentage py error_count' total_count'
                          else Inr 0) of
                      Inl e \<Rightarrow> (Inl e, m1)
                    | Inr error_percentage' \<Rightarrow>
                        (let a = length (objects m1)
                         in (Inr (Some a),
                             m1\<lparr>objects := objects m1 @
                                   [HealthCounts_init total_count' error_count' error_percentage'],
                                 health_counts_snapshot := Some a\<rparr>)))
            | (False, cell) \<Rightarrow>
                (Inr (health_counts_snapshot m), m\<lparr>last_health_counts_snapshot := cell\<rparr>))
         else (Inr (health_counts_snapshot m), m))"

subsection \<open>Concrete collaborators\<close>

text \<open>
  Modelled from the spec: a \<^verbatim>\<open>RollingNumber\<close> observed within its window, where the
  rolling sum of an event kind is the number of increments of that kind, and a notifier
  that records the events it is given. The counter is the list of increments made, the
  notifier the list of its calls. \<open>failing_hooks\<close> is the same with a notifier that
  raises on every call.
\<close>

definition recording ::
  "(RollingNumberEvent list, (EventType \<times> string option) list) collaborators" where
  "recording = \<lparr>
     RollingNumber = (\<lambda>ms buckets. Inr []),
     increment = (\<lambda>ev c. c @ [ev]),
     rolling_sum = (\<lambda>ev c. (int (count_list c ev), c)),
     mark_event = (\<lambda>ev key n. (None, n @ [(ev, key)]))\<rparr>"

definition failing_hooks ::
  "(RollingNumberEvent list, (EventType \<times> string option) list) collaborators" where
  "failing_hooks = recording\<lparr>mark_event := (\<lambda>ev key n. (Some ''listener failed'', n))\<rparr>"

subsection \<open>Example objects\<close>

text \<open>
  The properties of a command \<open>Foo\<close> built from a fresh setter, and the metrics object
  its constructor returns at clock reading \<open>0\<close> with a recording notifier.
\<close>

definition foo_properties :: CommandProperties where
  "foo_properties = projr (CommandProperties_init ''Foo'' Setter_init None)"

definition foo_metrics ::
  "(RollingNumberEvent list, (EventType \<times> string option) list) CommandMetrics" where
  "foo_metrics =
     projr (CommandMetrics_init recording (Some ''FooCommandMetrics'') None None None
              (Some foo_properties) (Some []) 0)"

text \<open>
  The same object with 29 failures and 21 successes in its window, as 29 calls of
  \<^verbatim>\<open>mark_failure\<close> and 21 of \<^verbatim>\<open>mark_success\<close> leave the counter.
\<close>

definition busy_metrics ::
  "(RollingNumberEvent list, (EventType \<times> string option) list) CommandMetrics" where
  "busy_metrics =
     foo_metrics\<lparr>counter :=
       replicate 29 RollingNumberEvent.FAILURE @ replicate 21 RollingNumberEvent.SUCCESS\<rparr>"

text \<open>
  The object the constructor returns when no notifier is passed
  (\<^verbatim>\<open>event_notifier=None\<close>, the default).
\<close>

definition unnotified_metrics ::
  "(RollingNumberEvent list, (EventType \<times> string option) list) CommandMetrics" where
  "unnotified_metrics =
     projr (CommandMetrics_init recording (Some ''FooCommandMetrics'') None None None
              (Some foo_properties) None 0)"

text \<open>
  A setter with an error threshold of 150 percent, a statistical window of \<open>- 1000\<close>
  milliseconds and no buckets.
\<close>

definition invalid_setter :: Setter where
  "invalid_setter =
     with_metrics_rolling_statistical_window_buckets (Some 0)
       (with_metrics_rolling_statistical_window_in_milliseconds (Some (- 1000))
         (with_circuit_breaker_error_threshold_percentage (Some 150) Setter_init))"




text \<open>The six reads of \<^verbatim>\<open>health_counts\<close>, in the order the method makes them.\<close>

definition read_rolling_sums ::
  "('c, 'n) collaborators \<Rightarrow> 'c \<Rightarrow> (int \<times> int \<times> int \<times> int \<times> int \<times> int) \<times> 'c" where
  "read_rolling_sums env c =
     (let (success, c1) = rolling_sum env RollingNumberEvent.SUCCESS c;
          (failure, c2) = rolling_sum env RollingNumberEvent.FAILURE c1;
          (timeout, c3) = rolling_sum env RollingNumberEvent.TIMEOUT c2;
          (thread_pool_rejected, c4) = rolling_sum env RollingNumberEvent.THREAD_POOL_REJECTED c3;
          (semaphore_rejected, c5) = rolling_sum env RollingNumberEvent.SEMAPHORE_REJECTED c4;
          (short_circuited, c6) = rolling_sum env RollingNumberEvent.SHORT_CIRCUITED c5
      in ((success, failure, timeout, thread_pool_rejected, semaphore_rejected,
           short_circuited), c6))"

section \<open>Facts about rounding\<close>

lemma round_half_even_le: "x \<le> of_int M \<Longrightarrow> round_half_even x \<le> M"
proof -
  assume le: "x \<le> of_int M"
  then have f: "\<lfloor>x\<rfloor> \<le> M" by (simp add: floor_le_iff order.strict_trans1)
  show ?thesis
  proof (cases "\<lfloor>x\<rfloor> = M")
    case True
    then have "x - of_int \<lfloor>x\<rfloor> \<le> 0" using le by simp
    then have "x - of_int \<lfloor>x\<rfloor> < 1 / 2" by linarith
    then show ?thesis using True by (simp add: round_half_even_def Let_def)
  next
    case False
    then have "\<lfloor>x\<rfloor> + 1 \<le> M" using f by linarith
    then show ?thesis using f by (simp add: round_half_even_def Let_def)
  qed
qed

lemma round_half_even_nonneg: "0 \<le> x \<Longrightarrow> 0 \<le> round_half_even x"
  by (simp add: round_half_even_def Let_def)

lemma exponent2_le: "0 < x \<Longrightarrow> 2 powi (exponent2 x) \<le> x"
proof (cases "1 \<le> x")
  case True
  then have pos: "0 < \<lfloor>x\<rfloor>" by linarith
  have "(2::int) ^ nat (bitlen \<lfloor>x\<rfloor> - 1) \<le> \<lfloor>x\<rfloor>"
    using bitlen_bounds [OF pos] by simp
  then have "(of_int ((2::int) ^ nat (bitlen \<lfloor>x\<rfloor> - 1)) :: rat) \<le> of_int \<lfloor>x\<rfloor>"
    by (simp only: of_int_le_iff)
  also have "\<dots> \<le> x" by simp
  finally have "(2::rat) ^ nat (bitlen \<lfloor>x\<rfloor> - 1) \<le> x" by simp
  moreover have "1 \<le> bitlen \<lfloor>x\<rfloor>" using pos by (simp add: bitlen_alt_def)
  ultimately show ?thesis using True by (simp add: exponent2_def power_int_def)
next
  case False
  assume xpos: "0 < x"
  let ?n = "\<lceil>1 / x\<rceil> - 1"
  from False xpos have "1 < 1 / x" by simp
  then have npos: "0 < ?n" by linarith
  have "?n < 2 ^ nat (bitlen ?n)" using bitlen_bounds [OF npos] by simp
  then have "\<lceil>1 / x\<rceil> \<le> 2 ^ nat (bitlen ?n)" by linarith
  then have "(of_int \<lceil>1 / x\<rceil> :: rat) \<le> of_int (2 ^ nat (bitlen ?n))"
    by (simp only: of_int_le_iff)
  then have "1 / x \<le> 2 ^ nat (bitlen ?n)" by (simp add: ceiling_le_iff)
  then have "1 / 2 ^ nat (bitlen ?n) \<le> x" using xpos
    by (simp add: field_simps)
  moreover have "1 \<le> bitlen ?n" using npos by (simp add: bitlen_alt_def)
  ultimately show ?thesis using False
    by (simp add: exponent2_def power_int_def field_simps)
qed


lemma exponent2_less:
  assumes "0 < x" and "x < 2 ^ K"
  shows "exponent2 x < int K"
proof -
  have "(2::rat) powi (exponent2 x) \<le> x" using assms(1) by (rule exponent2_le)
  also have "x < 2 powi (int K)" using assms(2) by simp
  finally show ?thesis
    by (rule power_int_le_imp_less_exp [rotated]) simp_all
qed

lemma binary64_nonneg: "0 \<le> x \<Longrightarrow> 0 \<le> binary64 x"
  by (simp add: binary64_def Let_def round_half_even_nonneg)

lemma binary64_le:
  assumes "0 < x" and "x \<le> of_int N * 2 powi j"
    and "exponent2 x - 52 \<le> j" and "- 1074 \<le> j"
  shows "binary64 x \<le> of_int N * 2 powi j"
proof -
  define k where "k = max (exponent2 x) (- 1022) - 52"
  define ulp :: rat where "ulp = 2 powi k"
  have kj: "k \<le> j" using assms(3,4) by (simp add: k_def)
  have upos: "0 < ulp" by (simp add: ulp_def)
  have "(2::rat) powi j = 2 powi (j - k) * 2 powi k"
    using power_int_add [of "2::rat" "j - k" k] by simp
  also have "(2::rat) powi (j - k) = 2 ^ nat (j - k)"
    using kj by (simp add: power_int_nonneg_exp)
  finally have B: "of_int N * 2 powi j = of_int (N * 2 ^ nat (j - k)) * ulp"
    by (simp add: ulp_def)
  have "x / ulp \<le> of_int (N * 2 ^ nat (j - k))"
    using assms(2) upos unfolding B by (simp add: pos_divide_le_eq)
  then have "round_half_even (x / ulp) \<le> N * 2 ^ nat (j - k)"
    by (rule round_half_even_le)
  then have "(of_int (round_half_even (x / ulp)) :: rat) \<le> of_int (N * 2 ^ nat (j - k))"
    by (simp only: of_int_le_iff)
  then have "of_int (round_half_even (x / ulp)) * ulp \<le> of_int (N * 2 ^ nat (j - k)) * ulp"
    using upos by (rule mult_right_mono [OF _ less_imp_le])
  moreover have "binary64 x = of_int (round_half_even (x / ulp)) * ulp"
    using assms(1) by (simp add: binary64_def Let_def k_def ulp_def)
  ultimately show ?thesis unfolding B by simp
qed

lemma binary64_unit_interval:
  assumes "0 \<le> x" and "x \<le> 1"
  shows "0 \<le> binary64 x \<and> binary64 x \<le> 1"
proof (cases "x = 0")
  case True
  then show ?thesis by (simp add: binary64_def)
next
  case False
  then have pos: "0 < x" using assms(1) by simp
  have "x < 2 ^ 1" using assms(2) by simp
  then have "exponent2 x < int 1" using pos by (intro exponent2_less)
  then have "binary64 x \<le> of_int 1 * 2 powi 0"
    using pos assms(2) by (intro binary64_le) simp_all
  then show ?thesis using assms(1) by (simp add: binary64_nonneg)
qed

lemma binary64_percent_interval:
  assumes "0 \<le> x" and "x \<le> 100"
  shows "0 \<le> binary64 x \<and> binary64 x \<le> 100"
proof (cases "x = 0")
  case True
  then show ?thesis by (simp add: binary64_def)
next
  case False
  then have pos: "0 < x" using assms(1) by simp
  have "x < 2 ^ 7" using assms(2) by simp
  then have "exponent2 x < int 7" using pos by (intro exponent2_less)
  then have "binary64 x \<le> of_int 25 * 2 powi 2"
    using pos assms(2) by (intro binary64_le) simp_all
  then show ?thesis using assms(1) by (simp add: binary64_nonneg)
qed

lemma int_error_percentage_bounds:
  assumes "0 \<le> e" and "e \<le> t" and "0 < t"
  shows "\<exists>p. int_error_percentage py e t = Inr p \<and> 0 \<le> p \<and> p \<le> 100"
proof (cases py)
  case Python2
  have "e div t \<le> t div t" using assms(2,3) by (intro zdiv_mono1)
  then have "e div t \<le> 1" using assms(3) by simp
  moreover have "0 \<le> e div t" using assms(1,3) by (simp add: pos_imp_zdiv_nonneg_iff)
  ultimately show ?thesis using Python2 assms(3)
    by (simp add: int_error_percentage_def py2_div_def)
next
  case Python3
  define q where "q = binary64 (of_int e / of_int t)"
  have "(0::rat) \<le> of_int e / of_int t" "(of_int e / of_int t :: rat) \<le> 1"
    using assms by simp_all
  then have q: "0 \<le> q" "q \<le> 1" unfolding q_def using binary64_unit_interval by blast+
  define p where "p = binary64 (q * 100)"
  have "0 \<le> q * 100" "q * 100 \<le> 100" using q by simp_all
  then have p: "0 \<le> p" "p \<le> 100" unfolding p_def using binary64_percent_interval by blast+
  have "\<bar>q\<bar> < 2 ^ 1024" using q by simp
  then have d: "py_truediv e t = Inr q" using assms(3) by (simp add: py_truediv_def q_def Let_def)
  have "\<bar>p\<bar> < 2 ^ 1024" using p by simp
  then have m: "py_float_mul q 100 = Finite p" by (simp add: py_float_mul_def p_def Let_def)
  have "\<lfloor>p\<rfloor> \<le> 100" using p(2) by (simp add: floor_le_iff)
  then show ?thesis using Python3 d m p(1)
    by (simp add: int_error_percentage_def py_int_def)
qed

lemma python3_percentage:
  assumes "0 \<le> e" and "e \<le> t" and "0 < t"
  shows "int_error_percentage Python3 e t =
           Inr \<lfloor>binary64 (binary64 (of_int e / of_int t) * 100)\<rfloor>"
proof -
  define q where "q = binary64 (of_int e / of_int t)"
  have "(0::rat) \<le> of_int e / of_int t" "(of_int e / of_int t :: rat) \<le> 1"
    using assms by simp_all
  then have q: "0 \<le> q" "q \<le> 1" unfolding q_def using binary64_unit_interval by blast+
  define p where "p = binary64 (q * 100)"
  have "0 \<le> q * 100" "q * 100 \<le> 100" using q by simp_all
  then have p: "0 \<le> p" "p \<le> 100" unfolding p_def using binary64_percent_interval by blast+
  have "\<bar>q\<bar> < 2 ^ 1024" using q by simp
  then have d: "py_truediv e t = Inr q" using assms(3) by (simp add: py_truediv_def q_def Let_def)
  have "\<bar>p\<bar> < 2 ^ 1024" using p by simp
  then have m: "py_float_mul q 100 = Finite p" by (simp add: py_float_mul_def p_def Let_def)
  show ?thesis using d m p(1)
    by (simp add: int_error_percentage_def py_int_def p_def q_def)
qed

lemma binary64_29_of_50: "\<lfloor>binary64 (binary64 (29 / 50) * 100)\<rfloor> = 57"
  by code_simp

lemma py3_29_of_50: "int_error_percentage Python3 29 50 = Inr 57"
  using python3_percentage [of 29 50] by (simp add: binary64_29_of_50)

lemma py2_29_of_50: "int_error_percentage Python2 29 50 = Inr 0"
  by (simp add: int_error_percentage_def py2_div_def)



lemma int_error_percentage_errors:
  "int_error_percentage py e t = Inl x \<Longrightarrow> x = ZeroDivisionError \<or> x = OverflowError"
  by (auto simp add: int_error_percentage_def py2_div_def py_truediv_def py_int_def Let_def
      split: python.splits if_splits sum.splits py_float.splits)

section \<open>Facts about the example objects\<close>


lemma foo_metrics_eq:
  "foo_metrics = \<lparr>command_metrics_key = Some ''FooCommandMetrics'', counter = [],
     properties = foo_properties, group_key = None, event_notifier = Some [],
     health_counts_snapshot = None, last_health_counts_snapshot = 0, objects = []\<rparr>"
  by (simp add: foo_metrics_def CommandMetrics_init_def recording_def)

lemma count_list_replicate: "count_list (replicate n x) y = (if x = y then n else 0)"
  by (induction n) auto

lemma busy_reads:
  "read_rolling_sums recording (counter busy_metrics) = ((21, 29, 0, 0, 0, 0), counter busy_metrics)"
  by (simp add: read_rolling_sums_def recording_def busy_metrics_def count_list_replicate)

lemma unnotified_metrics_eq:
  "unnotified_metrics = foo_metrics\<lparr>event_notifier := None\<rparr>"
  by (simp add: unnotified_metrics_def foo_metrics_eq CommandMetrics_init_def recording_def)

section \<open>Facts about \<^verbatim>\<open>health_counts\<close>\<close>


lemma health_counts_refresh:
  assumes due: "metrics_health_snapshot_interval_in_milliseconds (properties m)
                  \<le> now - last_health_counts_snapshot m
                \<or> health_counts_snapshot m = None"
    and reads: "read_rolling_sums env (counter m) = ((s, f, t, tp, sr, sc), c')"
    and pct: "(if 0 < f + s + t + tp + sc + sr
               then int_error_percentage py (f + t + tp + sc + sr) (f + s + t + tp + sc + sr)
               else Inr 0) = Inr p"
  shows "health_counts py env now m =
           (Inr (Some (length (objects m))),
            m\<lparr>last_health_counts_snapshot := now, counter := c',
              objects := objects m @
                [HealthCounts_init (f + s + t + tp + sc + sr) (f + t + tp + sc + sr) p],
              health_counts_snapshot := Some (length (objects m))\<rparr>)"
  using reads pct due
  unfolding health_counts_def read_rolling_sums_def compare_and_set_def Let_def
  by (auto split: prod.splits if_splits)

lemma health_counts_raises:
  assumes due: "metrics_health_snapshot_interval_in_milliseconds (properties m)
                  \<le> now - last_health_counts_snapshot m
                \<or> health_counts_snapshot m = None"
    and reads: "read_rolling_sums env (counter m) = ((s, f, t, tp, sr, sc), c')"
    and pct: "(if 0 < f + s + t + tp + sc + sr
               then int_error_percentage py (f + t + tp + sc + sr) (f + s + t + tp + sc + sr)
               else Inr 0) = Inl e"
  shows "health_counts py env now m =
           (Inl e, m\<lparr>last_health_counts_snapshot := now, counter := c'\<rparr>)"
  using reads pct due
  unfolding health_counts_def read_rolling_sums_def compare_and_set_def Let_def
  by (auto split: prod.splits if_splits)

lemma health_counts_totals:
  assumes due: "metrics_health_snapshot_interval_in_milliseconds (properties m)
                  \<le> now - last_health_counts_snapshot m
                \<or> health_counts_snapshot m = None"
    and reads: "read_rolling_sums env (counter m) = ((s, f, t, tp, sr, sc), c')"
    and returns: "health_counts py env now m = (Inr r, m')"
  shows "r = Some (length (objects m))
         \<and> total_requests (objects m' ! length (objects m)) = s + f + t + tp + sr + sc
         \<and> error_count (objects m' ! length (objects m))
             = total_requests (objects m' ! length (objects m)) - s
         \<and> (s + f + t + tp + sr + sc \<le> 0 \<longrightarrow>
               error_percentage (objects m' ! length (objects m)) = 0)"
proof (cases "if 0 < f + s + t + tp + sc + sr
               then int_error_percentage py (f + t + tp + sc + sr) (f + s + t + tp + sc + sr)
               else Inr 0")
  case (Inl e)
  from health_counts_raises [OF due reads Inl] returns show ?thesis by simp
next
  case (Inr p)
  from health_counts_refresh [OF due reads Inr] returns show ?thesis
    using Inr
    by (auto simp add: total_requests_def error_count_def error_percentage_def
        HealthCounts_init_def split: if_splits)
qed


lemma health_counts_outcomes:
  "(fst (health_counts py env now m) = Inr (health_counts_snapshot m)
      \<and> objects (snd (health_counts py env now m)) = objects m
      \<and> health_counts_snapshot (snd (health_counts py env now m)) = health_counts_snapshot m)
   \<or> (\<exists>h. fst (health_counts py env now m) = Inr (Some (length (objects m)))
      \<and> objects (snd (health_counts py env now m)) = objects m @ [h]
      \<and> health_counts_snapshot (snd (health_counts py env now m)) = Some (length (objects m)))
   \<or> (\<exists>e. fst (health_counts py env now m) = Inl e
      \<and> objects (snd (health_counts py env now m)) = objects m
      \<and> health_counts_snapshot (snd (health_counts py env now m)) = health_counts_snapshot m)"
  unfolding health_counts_def compare_and_set_def Let_def
  by (auto split: prod.splits if_splits sum.splits)

lemma health_counts_errors:
  "fst (health_counts py env now m) = Inl x \<Longrightarrow> x = ZeroDivisionError \<or> x = OverflowError"
  unfolding health_counts_def compare_and_set_def Let_def
  by (auto split: prod.splits if_splits sum.splits dest: int_error_percentage_errors)

subsection \<open>The example run\<close>







section \<open>Facts about the \<^verbatim>\<open>mark_...\<close> methods\<close>

text \<open>
  With the recording collaborators a successful \<^verbatim>\<open>mark_...\<close> call raises the rolling
  sum of its own event by one and leaves every other rolling sum as it was.
\<close>

lemma recording_mark_sums:
  assumes "event_notifier m = Some n"
  shows "fst (rolling_sum recording ev (counter (snd (mark_success recording d m))))
           = fst (rolling_sum recording ev (counter m))
             + (if ev = RollingNumberEvent.SUCCESS then 1 else 0)"
    and "fst (rolling_sum recording ev (counter (snd (mark_failure recording d m))))
           = fst (rolling_sum recording ev (counter m))
             + (if ev = RollingNumberEvent.FAILURE then 1 else 0)"
    and "fst (rolling_sum recording ev (counter (snd (mark_timeout recording d m))))
           = fst (rolling_sum recording ev (counter m))
             + (if ev = RollingNumberEvent.TIMEOUT then 1 else 0)"
    and "fst (rolling_sum recording ev (counter (snd (mark_bad_request recording d m))))
           = fst (rolling_sum recording ev (counter m))
             + (if ev = RollingNumberEvent.BAD_REQUEST then 1 else 0)"
  using assms
  by (simp_all add: mark_success_def mark_failure_def mark_timeout_def mark_bad_request_def
      recording_def)

section \<open>The claims\<close>

subsection \<open>Contents of a published snapshot\<close>

text \<open>
  Claim C1. A refresh publishes a \<^verbatim>\<open>HealthCounts\<close> whose total is the sum of the six
  rolling sums, whose error count is the total minus the \<open>SUCCESS\<close> sum, and whose error
  percentage is \<open>\<lfloor>error_count / total_requests * 100\<rfloor>\<close> (or 0 for an empty window).

  The first two parts hold (\<open>health_counts_totals\<close>). The percentage does not: the
  source computes \<^verbatim>\<open>int(error_count / total_count * 100)\<close>, and the quotient is rounded
  before it is multiplied. With 29 failures and 21 successes the exact percentage is 58;
  under Python 3 the float \<open>29 / 50\<close> times \<open>100\<close> is \<open>57.99999999999999\<close> and the
  snapshot says 57, under Python 2 the integer quotient is 0 and the snapshot says 0.
\<close>

theorem health_counts_29_of_50:
  "fst (health_counts Python3 recording 0 busy_metrics) = Inr (Some 0)
   \<and> objects (snd (health_counts Python3 recording 0 busy_metrics)) = [HealthCounts_init 50 29 57]
   \<and> fst (health_counts Python2 recording 0 busy_metrics) = Inr (Some 0)
   \<and> objects (snd (health_counts Python2 recording 0 busy_metrics)) = [HealthCounts_init 50 29 0]
   \<and> \<lfloor>(29::rat) / 50 * 100\<rfloor> = 58"
proof -
  have due: "metrics_health_snapshot_interval_in_milliseconds (properties busy_metrics)
               \<le> 0 - last_health_counts_snapshot busy_metrics
             \<or> health_counts_snapshot busy_metrics = None"
    by (simp add: busy_metrics_def foo_metrics_eq)
  have objs: "objects busy_metrics = []"
    by (simp add: busy_metrics_def foo_metrics_eq)
  have p3: "(if (0::int) < 29 + 21 + 0 + 0 + 0 + 0
             then int_error_percentage Python3 (29 + 0 + 0 + 0 + 0) (29 + 21 + 0 + 0 + 0 + 0)
             else Inr 0) = Inr 57"
    by (simp add: py3_29_of_50)
  have p2: "(if (0::int) < 29 + 21 + 0 + 0 + 0 + 0
             then int_error_percentage Python2 (29 + 0 + 0 + 0 + 0) (29 + 21 + 0 + 0 + 0 + 0)
             else Inr 0) = Inr 0"
    by (simp add: py2_29_of_50)
  show ?thesis
    using health_counts_refresh [OF due busy_reads p3] health_counts_refresh [OF due busy_reads p2]
    by (simp add: objs)
qed

subsection \<open>Throttling of the refresh\<close>




subsection \<open>A notifier that raises\<close>

text \<open>
  Claim C3, as stated: an exception raised by \<^verbatim>\<open>event_notifier.mark_event\<close> does not
  reach the caller of \<^verbatim>\<open>mark_...\<close> and does not prevent the increment. The methods call
  the notifier outside any \<^verbatim>\<open>try\<close> and before the increment: with a notifier that
  raises, \<^verbatim>\<open>mark_success\<close> raises and the \<open>SUCCESS\<close> sum stays 0.
\<close>

theorem hook_failure_counterexample:
  "mark_success failing_hooks (12::int) foo_metrics
     = (Inl (HookError ''listener failed''), foo_metrics)
   \<and> rolling_sum failing_hooks RollingNumberEvent.SUCCESS
         (counter (snd (mark_success failing_hooks (12::int) foo_metrics)))
     = (0, [])"
  by (simp add: mark_success_def failing_hooks_def recording_def foo_metrics_eq)

text \<open>
  Claim C3, amended. When the notifier raises, each of the four \<^verbatim>\<open>mark_...\<close> methods
  raises the notifier's exception to its caller and leaves the counter and every other
  attribute but the notifier as they were.
\<close>

theorem hook_failure_propagates:
  assumes "event_notifier m = Some n"
  shows "(mark_event env EventType.SUCCESS (command_metrics_key m) n = (Some msg, n') \<longrightarrow>
            mark_success env d m = (Inl (HookError msg), m\<lparr>event_notifier := Some n'\<rparr>))
       \<and> (mark_event env EventType.FAILURE (command_metrics_key m) n = (Some msg, n') \<longrightarrow>
            mark_failure env d m = (Inl (HookError msg), m\<lparr>event_notifier := Some n'\<rparr>))
       \<and> (mark_event env EventType.TIMEOUT (command_metrics_key m) n = (Some msg, n') \<longrightarrow>
            mark_timeout env d m = (Inl (HookError msg), m\<lparr>event_notifier := Some n'\<rparr>))
       \<and> (mark_event env EventType.BAD_REQUEST (command_metrics_key m) n = (Some msg, n') \<longrightarrow>
            mark_bad_request env d m = (Inl (HookError msg), m\<lparr>event_notifier := Some n'\<rparr>))"
  using assms
  by (simp add: mark_success_def mark_failure_def mark_timeout_def mark_bad_request_def)

theorem hook_failure_propagates_witness:
  "event_notifier foo_metrics = Some []
   \<and> mark_event failing_hooks EventType.SUCCESS (command_metrics_key foo_metrics) []
       = (Some ''listener failed'', [])
   \<and> mark_success failing_hooks (12::int) foo_metrics
       = (Inl (HookError ''listener failed''), foo_metrics\<lparr>event_notifier := Some []\<rparr>)
   \<and> mark_event failing_hooks EventType.FAILURE (command_metrics_key foo_metrics) []
       = (Some ''listener failed'', [])
   \<and> mark_failure failing_hooks (12::int) foo_metrics
       = (Inl (HookError ''listener failed''), foo_metrics\<lparr>event_notifier := Some []\<rparr>)
   \<and> mark_event failing_hooks EventType.TIMEOUT (command_metrics_key foo_metrics) []
       = (Some ''listener failed'', [])
   \<and> mark_timeout failing_hooks (12::int) foo_metrics
       = (Inl (HookError ''listener failed''), foo_metrics\<lparr>event_notifier := Some []\<rparr>)
   \<and> mark_event failing_hooks EventType.BAD_REQUEST (command_metrics_key foo_metrics) []
       = (Some ''listener failed'', [])
   \<and> mark_bad_request failing_hooks (12::int) foo_metrics
       = (Inl (HookError ''listener failed''), foo_metrics\<lparr>event_notifier := Some []\<rparr>)"
proof -
  have n: "event_notifier foo_metrics = Some []" by (simp add: foo_metrics_eq)
  have h: "mark_event failing_hooks ev (command_metrics_key foo_metrics) []
             = (Some ''listener failed'', [])" for ev
    by (simp add: failing_hooks_def)
  from hook_failure_propagates [OF n, of failing_hooks "''listener failed''" "[]" "12::int"] n h
  show ?thesis by simp
qed

subsection \<open>One increment and one notification\<close>

text \<open>
  Claim C4, as stated: every \<^verbatim>\<open>mark_...\<close> call increments its counter by one and fires
  the hook once. On the object the constructor returns when no notifier is passed,
  \<^verbatim>\<open>mark_failure\<close> raises \<^verbatim>\<open>AttributeError\<close>, no hook is fired and the \<open>FAILURE\<close>
  sum stays 0.
\<close>

theorem mark_without_notifier_counterexample:
  "CommandMetrics_init recording (Some ''FooCommandMetrics'') None None None
     (Some foo_properties) None 0 = Inr unnotified_metrics
   \<and> mark_failure recording (12::int) unnotified_metrics = (Inl AttributeError, unnotified_metrics)
   \<and> rolling_sum recording RollingNumberEvent.FAILURE (counter unnotified_metrics) = (0, [])"
  by (simp add: mark_failure_def unnotified_metrics_eq foo_metrics_eq CommandMetrics_init_def
      recording_def)

text \<open>
  Claim C4, amended. On an object that has a notifier whose \<^verbatim>\<open>mark_event\<close> returns,
  each of \<^verbatim>\<open>mark_success\<close>, \<^verbatim>\<open>mark_failure\<close>, \<^verbatim>\<open>mark_timeout\<close> and
  \<^verbatim>\<open>mark_bad_request\<close> calls the notifier once, with its own event type and the
  object's \<^verbatim>\<open>command_metrics_key\<close>, calls \<^verbatim>\<open>counter.increment\<close> once, with its own
  event, returns \<^verbatim>\<open>None\<close> and changes nothing else.
\<close>

theorem mark_increments_and_notifies:
  assumes "event_notifier m = Some n"
  shows "(mark_event env EventType.SUCCESS (command_metrics_key m) n = (None, n') \<longrightarrow>
            mark_success env d m =
              (Inr (), m\<lparr>event_notifier := Some n',
                         counter := increment env RollingNumberEvent.SUCCESS (counter m)\<rparr>))
       \<and> (mark_event env EventType.FAILURE (command_metrics_key m) n = (None, n') \<longrightarrow>
            mark_failure env d m =
              (Inr (), m\<lparr>event_notifier := Some n',
                         counter := increment env RollingNumberEvent.FAILURE (counter m)\<rparr>))
       \<and> (mark_event env EventType.TIMEOUT (command_metrics_key m) n = (None, n') \<longrightarrow>
            mark_timeout env d m =
              (Inr (), m\<lparr>event_notifier := Some n',
                         counter := increment env RollingNumberEvent.TIMEOUT (counter m)\<rparr>))
       \<and> (mark_event env EventType.BAD_REQUEST (command_metrics_key m) n = (None, n') \<longrightarrow>
            mark_bad_request env d m =
              (Inr (), m\<lparr>event_notifier := Some n',
                         counter := increment env RollingNumberEvent.BAD_REQUEST (counter m)\<rparr>))"
  using assms
  by (simp add: mark_success_def mark_failure_def mark_timeout_def mark_bad_request_def)

theorem mark_increments_and_notifies_witness:
  "event_notifier foo_metrics = Some []
   \<and> mark_event recording EventType.SUCCESS (command_metrics_key foo_metrics) []
       = (None, [(EventType.SUCCESS, Some ''FooCommandMetrics'')])
   \<and> mark_success recording (12::int) foo_metrics
       = (Inr (), foo_metrics\<lparr>
            event_notifier := Some [(EventType.SUCCESS, Some ''FooCommandMetrics'')],
            counter := [RollingNumberEvent.SUCCESS]\<rparr>)
   \<and> mark_event recording EventType.FAILURE (command_metrics_key foo_metrics) []
       = (None, [(EventType.FAILURE, Some ''FooCommandMetrics'')])
   \<and> mark_failure recording (12::int) foo_metrics
       = (Inr (), foo_metrics\<lparr>
            event_notifier := Some [(EventType.FAILURE, Some ''FooCommandMetrics'')],
            counter := [RollingNumberEvent.FAILURE]\<rparr>)
   \<and> mark_event recording EventType.TIMEOUT (command_metrics_key foo_metrics) []
       = (None, [(EventType.TIMEOUT, Some ''FooCommandMetrics'')])
   \<and> mark_timeout recording (12::int) foo_metrics
       = (Inr (), foo_metrics\<lparr>
            event_notifier := Some [(EventType.TIMEOUT, Some ''FooCommandMetrics'')],
            counter := [RollingNumberEvent.TIMEOUT]\<rparr>)
   \<and> mark_event recording EventType.BAD_REQUEST (command_metrics_key foo_metrics) []
       = (None, [(EventType.BAD_REQUEST, Some ''FooCommandMetrics'')])
   \<and> mark_bad_request recording (12::int) foo_metrics
       = (Inr (), foo_metrics\<lparr>
            event_notifier := Some [(EventType.BAD_REQUEST, Some ''FooCommandMetrics'')],
            counter := [RollingNumberEvent.BAD_REQUEST]\<rparr>)"
proof -
  have n: "event_notifier foo_metrics = Some []" by (simp add: foo_metrics_eq)
  have k: "command_metrics_key foo_metrics = Some ''FooCommandMetrics''"
    by (simp add: foo_metrics_eq)
  have h: "mark_event recording ev (command_metrics_key foo_metrics) []
             = (None, [(ev, Some ''FooCommandMetrics'')])" for ev
    by (simp add: recording_def k)
  have c: "increment recording ev (counter foo_metrics) = [ev]" for ev
    by (simp add: recording_def foo_metrics_eq)
  from mark_increments_and_notifies [OF n, of recording _ "12::int"] n h c
  show ?thesis by simp
qed

subsection \<open>Validation of the properties\<close>

text \<open>
  Claim C5, as stated: constructing command properties with an error threshold outside
  0 to 100, or with a non-positive window or bucket count, raises \<^verbatim>\<open>ConfigError\<close>. The
  constructor returns an object holding 150, \<open>- 1000\<close> and 0.
\<close>

theorem invalid_setter_counterexample:
  "CommandProperties_init ''Foo'' invalid_setter None
     = Inr (foo_properties\<lparr>
         circuit_breaker_error_threshold_percentage := 150,
         metrics_rolling_statistical_window_in_milliseconds := - 1000,
         metrics_rolling_statistical_window_buckets := 0\<rparr>)"
  unfolding CommandProperties_init_def invalid_setter_def Setter_init_def property'_def
    foo_properties_def with_metrics_rolling_statistical_window_buckets_def
    with_metrics_rolling_statistical_window_in_milliseconds_def
    with_circuit_breaker_error_threshold_percentage_def
  by simp

text \<open>
  Claim C5, amended. Constructing command properties validates nothing: for every setter
  the constructor returns an object, and an override of the error threshold, of a window
  duration or of a bucket count is stored as given, whatever its value. No
  \<^verbatim>\<open>ConfigError\<close> is raised by \<^verbatim>\<open>mark_success\<close>, \<^verbatim>\<open>mark_failure\<close>,
  \<^verbatim>\<open>mark_timeout\<close>, \<^verbatim>\<open>mark_bad_request\<close> or \<^verbatim>\<open>health_counts\<close> either.
\<close>

theorem no_validation:
  "(\<exists>p. CommandProperties_init key setter prefix = Inr p)
   \<and> circuit_breaker_error_threshold_percentage
       (projr (CommandProperties_init key
          (with_circuit_breaker_error_threshold_percentage (Some v) setter) prefix)) = v
   \<and> metrics_rolling_statistical_window_in_milliseconds
       (projr (CommandProperties_init key
          (with_metrics_rolling_statistical_window_in_milliseconds (Some v) setter) prefix)) = v
   \<and> metrics_rolling_statistical_window_buckets
       (projr (CommandProperties_init key
          (with_metrics_rolling_statistical_window_buckets (Some v) setter) prefix)) = v
   \<and> metrics_rolling_percentile_window_in_milliseconds
       (projr (CommandProperties_init key
          (with_metrics_rolling_percentile_window_in_milliseconds (Some v) setter) prefix)) = v
   \<and> metrics_rolling_percentile_window_buckets
       (projr (CommandProperties_init key
          (with_metrics_rolling_percentile_window_buckets (Some v) setter) prefix)) = v
   \<and> fst (mark_success env d m) \<noteq> Inl ConfigError
   \<and> fst (mark_failure env d m) \<noteq> Inl ConfigError
   \<and> fst (mark_timeout env d m) \<noteq> Inl ConfigError
   \<and> fst (mark_bad_request env d m) \<noteq> Inl ConfigError
   \<and> fst (health_counts py env now m) \<noteq> Inl ConfigError"
proof -
  have marks: "fst (mark_success env d m) \<noteq> Inl ConfigError"
    "fst (mark_failure env d m) \<noteq> Inl ConfigError"
    "fst (mark_timeout env d m) \<noteq> Inl ConfigError"
    "fst (mark_bad_request env d m) \<noteq> Inl ConfigError"
    by (simp_all add: mark_success_def mark_failure_def mark_timeout_def mark_bad_request_def
        split: option.splits prod.splits)
  have health: "fst (health_counts py env now m) \<noteq> Inl ConfigError"
    using health_counts_errors [of py env now m ConfigError] by auto
  have props: "\<exists>p. CommandProperties_init key setter prefix = Inr p"
    by (simp add: CommandProperties_init_def)
  show ?thesis
    using marks health props
    by (simp add: CommandProperties_init_def property'_def
        with_circuit_breaker_error_threshold_percentage_def
        with_metrics_rolling_statistical_window_in_milliseconds_def
        with_metrics_rolling_statistical_window_buckets_def
        with_metrics_rolling_percentile_window_in_milliseconds_def
        with_metrics_rolling_percentile_window_buckets_def)
qed

subsection \<open>Override, else default\<close>

text \<open>
  Claim C6. For every setter, the constructor returns an object each of whose 21
  properties is the setter's override when that is not \<^verbatim>\<open>None\<close> and the class's default
  otherwise; from a fresh \<^verbatim>\<open>Setter\<close> every property is its default.
\<close>

theorem setter_override_else_default:
  "\<exists>p p0.
      CommandProperties_init key setter prefix = Inr p
    \<and> command_key p = key \<and> property_prefix p = prefix
    \<and> circuit_breaker_enabled p =
             (case Setter.circuit_breaker_enabled setter of
                Some v \<Rightarrow> v
              | None \<Rightarrow> default_circuit_breaker_enabled)
    \<and> circuit_breaker_request_volume_threshold p =
             (case Setter.circuit_breaker_request_volume_threshold setter of
                Some v \<Rightarrow> v
              | None \<Rightarrow> default_circuit_breaker_request_volume_threshold)
    \<and> circuit_breaker_sleep_window_in_milliseconds p =
             (case Setter.circuit_breaker_sleep_window_in_milliseconds setter of
                Some v \<Rightarrow> v
              | None \<Rightarrow> default_circuit_breaker_sleep_window_in_milliseconds)
    \<and> circuit_breaker_error_threshold_percentage p =
             (case Setter.circuit_breaker_error_threshold_percentage setter of
                Some v \<Rightarrow> v
              | None \<Rightarrow> default_circuit_breaker_error_threshold_percentage)
    \<and> circuit_breaker_force_open p =
             (case Setter.circuit_breaker_force_open setter of
                Some v \<Rightarrow> v
              | None \<Rightarrow> default_circuit_breaker_force_open)
    \<and> circuit_breaker_force_closed p =
             (case Setter.circuit_breaker_force_closed setter of
                Some v \<Rightarrow> v
              | None \<Rightarrow> default_circuit_breaker_force_closed)
    \<and> execution_isolation_strategy p =
             (case Setter.execution_isolation_strategy setter of
                Some v \<Rightarrow> v
              | None \<Rightarrow> default_execution_isolation_strategy)
    \<and> execution_timeout_in_milliseconds p =
             (case Setter.execution_timeout_in_milliseconds setter of
                Some v \<Rightarrow> v
              | None \<Rightarrow> default_execution_timeout_in_milliseconds)
    \<and> execution_isolation_semaphore_max_concurrent_requests p =
             (case Setter.execution_isolation_semaphore_max_concurrent_requests setter of
                Some v \<Rightarrow> v
              | None \<Rightarrow> default_execution_isolation_semaphore_max_concurrent_requests)
    \<and> fallback_isolation_semaphore_max_concurrent_requests p =
             (case Setter.fallback_isolation_semaphore_max_concurrent_requests setter of
                Some v \<Rightarrow> v
              | None \<Rightarrow> default_fallback_isolation_semaphore_max_concurrent_requests)
    \<and> fallback_enabled p =
             (case Setter.fallback_enabled setter of
                Some v \<Rightarrow> v
              | None \<Rightarrow> default_fallback_enabled)
    \<and> execution_isolation_thread_interrupt_on_timeout p =
             (case Setter.execution_isolation_thread_interrupt_on_timeout setter of
                Some v \<Rightarrow> v
              | None \<Rightarrow> default_execution_isolation_thread_interrupt_on_timeout)
    \<and> metrics_rolling_statistical_window_in_milliseconds p =
             (case Setter.metrics_rolling_statistical_window_in_milliseconds setter of
                Some v \<Rightarrow> v
              | None \<Rightarrow> default_metrics_rolling_statistical_window)
    \<and> metrics_rolling_statistical_window_buckets p =
             (case Setter.metrics_rolling_statistical_window_buckets setter of
                Some v \<Rightarrow> v
              | None \<Rightarrow> default_metrics_rolling_statistical_window_buckets)
    \<and> metrics_rolling_percentile_enabled p =
             (case Setter.metrics_rolling_percentile_enabled setter of
                Some v \<Rightarrow> v
              | None \<Rightarrow> default_metrics_rolling_percentile_enabled)
    \<and> metrics_rolling_percentile_window_in_milliseconds p =
             (case Setter.metrics_rolling_percentile_window_in_milliseconds setter of
                Some v \<Rightarrow> v
              | None \<Rightarrow> default_metrics_rolling_percentile_window)
    \<and> metrics_rolling_percentile_window_buckets p =
             (case Setter.metrics_rolling_percentile_window_buckets setter of
                Some v \<Rightarrow> v
              | None \<Rightarrow> default_metrics_rolling_percentile_window_buckets)
    \<and> metrics_rolling_percentile_bucket_size p =
             (case Setter.metrics_rolling_percentile_bucket_size setter of
                Some v \<Rightarrow> v
              | None \<Rightarrow> default_metrics_rolling_percentile_bucket_size)
    \<and> metrics_health_snapshot_interval_in_milliseconds p =
             (case Setter.metrics_health_snapshot_interval_in_milliseconds setter of
                Some v \<Rightarrow> v
              | None \<Rightarrow> default_metrics_health_snapshot_interval_in_milliseconds)
    \<and> request_log_enabled p =
             (case Setter.request_log_enabled setter of
                Some v \<Rightarrow> v
              | None \<Rightarrow> default_request_log_enabled)
    \<and> request_cache_enabled p =
             (case Setter.request_cache_enabled setter of
                Some v \<Rightarrow> v
              | None \<Rightarrow> default_request_cache_enabled)
    \<and> CommandProperties_init key Setter_init prefix = Inr p0
    \<and> circuit_breaker_enabled p0 = True
    \<and> circuit_breaker_request_volume_threshold p0 = 20
    \<and> circuit_breaker_sleep_window_in_milliseconds p0 = 5000
    \<and> circuit_breaker_error_threshold_percentage p0 = 50
    \<and> circuit_breaker_force_open p0 = False
    \<and> circuit_breaker_force_closed p0 = False
    \<and> execution_isolation_strategy p0 = 0
    \<and> execution_timeout_in_milliseconds p0 = 1000
    \<and> execution_isolation_semaphore_max_concurrent_requests p0 = 10
    \<and> fallback_isolation_semaphore_max_concurrent_requests p0 = 10
    \<and> fallback_enabled p0 = True
    \<and> execution_isolation_thread_interrupt_on_timeout p0 = True
    \<and> metrics_rolling_statistical_window_in_milliseconds p0 = 10000
    \<and> metrics_rolling_statistical_window_buckets p0 = 10
    \<and> metrics_rolling_percentile_enabled p0 = True
    \<and> metrics_rolling_percentile_window_in_milliseconds p0 = 60000
    \<and> metrics_rolling_percentile_window_buckets p0 = 6
    \<and> metrics_rolling_percentile_bucket_size p0 = 100
    \<and> metrics_health_snapshot_interval_in_milliseconds p0 = 500
    \<and> request_log_enabled p0 = True
    \<and> request_cache_enabled p0 = True"
  unfolding CommandProperties_init_def Setter_init_def property'_def
  by (simp add:
      default_circuit_breaker_enabled_def
      default_circuit_breaker_request_volume_threshold_def
      default_circuit_breaker_sleep_window_in_milliseconds_def
      default_circuit_breaker_error_threshold_percentage_def
      default_circuit_breaker_force_open_def
      default_circuit_breaker_force_closed_def
      default_execution_isolation_strategy_def
      default_execution_timeout_in_milliseconds_def
      default_execution_isolation_semaphore_max_concurrent_requests_def
      default_fallback_isolation_semaphore_max_concurrent_requests_def
      default_fallback_enabled_def
      default_execution_isolation_thread_interrupt_on_timeout_def
      default_metrics_rolling_statistical_window_def
      default_metrics_rolling_statistical_window_buckets_def
      default_metrics_rolling_percentile_enabled_def
      default_metrics_rolling_percentile_window_def
      default_metrics_rolling_percentile_window_buckets_def
      default_metrics_rolling_percentile_bucket_size_def
      default_metrics_health_snapshot_interval_in_milliseconds_def
      default_request_log_enabled_def default_request_cache_enabled_def)

subsection \<open>Snapshots are not mutated\<close>

text \<open>
  Claim C7. The three getters of a \<^verbatim>\<open>HealthCounts\<close> return what the constructor was
  given. No method changes a \<^verbatim>\<open>HealthCounts\<close> that exists: the \<^verbatim>\<open>mark_...\<close> methods
  leave the objects as they are, and after \<^verbatim>\<open>health_counts\<close> every object that existed
  before is unchanged. \<^verbatim>\<open>health_counts\<close> either keeps the snapshot reference and
  allocates nothing, or points it to one newly allocated object.
\<close>

theorem health_counts_objects_immutable:
  "total_requests (HealthCounts_init a b c) = a
   \<and> error_count (HealthCounts_init a b c) = b
   \<and> error_percentage (HealthCounts_init a b c) = c
   \<and> take (length (objects m)) (objects (snd (health_counts py env now m))) = objects m
   \<and> objects (snd (mark_success env d m)) = objects m
   \<and> objects (snd (mark_failure env d m)) = objects m
   \<and> objects (snd (mark_timeout env d m)) = objects m
   \<and> objects (snd (mark_bad_request env d m)) = objects m
   \<and> (health_counts_snapshot (snd (health_counts py env now m)) = health_counts_snapshot m
        \<and> objects (snd (health_counts py env now m)) = objects m
      \<or> health_counts_snapshot (snd (health_counts py env now m)) = Some (length (objects m))
        \<and> length (objects (snd (health_counts py env now m))) = Suc (length (objects m)))"
proof -
  have marks: "objects (snd (mark_success env d m)) = objects m"
    "objects (snd (mark_failure env d m)) = objects m"
    "objects (snd (mark_timeout env d m)) = objects m"
    "objects (snd (mark_bad_request env d m)) = objects m"
    by (simp_all add: mark_success_def mark_failure_def mark_timeout_def mark_bad_request_def
        split: option.splits prod.splits)
  have getters: "total_requests (HealthCounts_init a b c) = a"
    "error_count (HealthCounts_init a b c) = b"
    "error_percentage (HealthCounts_init a b c) = c"
    by (simp_all add: total_requests_def error_count_def error_percentage_def
        HealthCounts_init_def)
  from health_counts_outcomes [of py env now m]
  have "take (length (objects m)) (objects (snd (health_counts py env now m))) = objects m"
    and "health_counts_snapshot (snd (health_counts py env now m)) = health_counts_snapshot m
           \<and> objects (snd (health_counts py env now m)) = objects m
         \<or> health_counts_snapshot (snd (health_counts py env now m)) = Some (length (objects m))
           \<and> length (objects (snd (health_counts py env now m))) = Suc (length (objects m))"
    by auto
  with marks getters show ?thesis by simp
qed

subsection \<open>The duration argument\<close>

text \<open>
  Claim C8. The result of each \<^verbatim>\<open>mark_...\<close> method, the exception or \<^verbatim>\<open>None\<close> and
  the object with its counter and its notifier, is the same for any two durations.
\<close>

theorem duration_is_ignored:
  "mark_success env d1 m = mark_success env d2 m
   \<and> mark_failure env d1 m = mark_failure env d2 m
   \<and> mark_timeout env d1 m = mark_timeout env d2 m
   \<and> mark_bad_request env d1 m = mark_bad_request env d2 m"
  by (simp add: mark_success_def mark_failure_def mark_timeout_def mark_bad_request_def)

subsection \<open>Bounds of a published snapshot\<close>

text \<open>
  Claim C10. When the six rolling sums are non-negative, the snapshot a refresh publishes
  has \<open>0 \<le> error_count \<le> total_requests\<close> and \<open>0 \<le> error_percentage \<le> 100\<close>, under
  either Python version; the refresh does not raise.
\<close>

theorem health_counts_bounds:
  assumes due: "metrics_health_snapshot_interval_in_milliseconds (properties m)
                  \<le> now - last_health_counts_snapshot m
                \<or> health_counts_snapshot m = None"
    and reads: "read_rolling_sums env (counter m) = ((s, f, t, tp, sr, sc), c')"
    and nonneg: "0 \<le> s" "0 \<le> f" "0 \<le> t" "0 \<le> tp" "0 \<le> sr" "0 \<le> sc"
  shows "\<exists>a m'. health_counts py env now m = (Inr (Some a), m')
           \<and> health_counts_snapshot m' = Some a \<and> a < length (objects m')
           \<and> 0 \<le> error_count (objects m' ! a)
           \<and> error_count (objects m' ! a) \<le> total_requests (objects m' ! a)
           \<and> 0 \<le> error_percentage (objects m' ! a)
           \<and> error_percentage (objects m' ! a) \<le> 100"
proof -
  let ?total = "f + s + t + tp + sc + sr" and ?errors = "f + t + tp + sc + sr"
  have "\<exists>p. (if 0 < ?total then int_error_percentage py ?errors ?total else Inr 0) = Inr p
          \<and> 0 \<le> p \<and> p \<le> 100"
  proof (cases "0 < ?total")
    case True
    moreover have "0 \<le> ?errors" "?errors \<le> ?total" using nonneg by simp_all
    ultimately show ?thesis using int_error_percentage_bounds [of ?errors ?total py] by simp
  next
    case False
    then show ?thesis by simp
  qed
  then obtain p
    where pct: "(if 0 < ?total then int_error_percentage py ?errors ?total else Inr 0) = Inr p"
      and p: "0 \<le> p" "p \<le> 100"
    by blast
  show ?thesis
    using health_counts_refresh [OF due reads pct] p nonneg
    by (simp add: total_requests_def error_count_def error_percentage_def
        HealthCounts_init_def)
qed

theorem health_counts_bounds_witness:
  "(metrics_health_snapshot_interval_in_milliseconds (properties busy_metrics)
      \<le> 0 - last_health_counts_snapshot busy_metrics
    \<or> health_counts_snapshot busy_metrics = None)
   \<and> read_rolling_sums recording (counter busy_metrics)
       = ((21, 29, 0, 0, 0, 0), counter busy_metrics)
   \<and> (\<exists>a m'. health_counts Python3 recording 0 busy_metrics = (Inr (Some a), m')
           \<and> health_counts_snapshot m' = Some a \<and> a < length (objects m')
           \<and> 0 \<le> error_count (objects m' ! a)
           \<and> error_count (objects m' ! a) \<le> total_requests (objects m' ! a)
           \<and> 0 \<le> error_percentage (objects m' ! a)
           \<and> error_percentage (objects m' ! a) \<le> 100)"
proof -
  have due: "metrics_health_snapshot_interval_in_milliseconds (properties busy_metrics)
               \<le> 0 - last_health_counts_snapshot busy_metrics
             \<or> health_counts_snapshot busy_metrics = None"
    by (simp add: busy_metrics_def foo_metrics_eq)
  from health_counts_bounds [OF due busy_reads, of Python3] due busy_reads
  show ?thesis by simp
qed

end
